theory Spec2Isabelle
  imports Main "HOL-Library.Word"
begin

section \<open>Errors\<close>

text \<open>
  Go error values. The sentinels are the package-level values the sources compare
  against with \<open>errors.Is\<close>: \<open>retryer.ErrPermanent\<close>, \<open>context.Canceled\<close>,
  \<open>context.DeadlineExceeded\<close> and \<open>http.ErrServerClosed\<close>. \<open>Other msg\<close> is any
  error that is none of the sentinels and wraps nothing (a transport error, the test's
  \<open>errTest\<close>). \<open>Errorf fmt e\<close> is \<open>fmt.Errorf(fmt, ..., e)\<close> with one \<open>%w\<close> verb: a
  new error whose wrapped cause is \<open>e\<close>; the formatted text is kept as the format string.
\<close>

datatype error =
    ErrPermanent
  | Canceled
  | DeadlineExceeded
  | ErrServerClosed
  | Other string
  | Errorf string error

text \<open>\<open>errors.Is(err, target)\<close>: \<open>err\<close> or an error on its chain of causes equals the target.\<close>

fun errors_Is :: "error \<Rightarrow> error \<Rightarrow> bool" where
  "errors_Is (Errorf m e) target = (Errorf m e = target \<or> errors_Is e target)"
| "errors_Is e target = (e = target)"

text \<open>\<open>errors.Is\<close> on a possibly nil error: \<open>nil\<close> matches no sentinel.\<close>

fun Is :: "error option \<Rightarrow> error \<Rightarrow> bool" where
  "Is None target = False"
| "Is (Some e) target = errors_Is e target"

section \<open>retryer/retryer.go\<close>

text \<open>
  The backoff policy comes from the library \<open>lestrrat-go/backoff\<close>, which is not part of
  the repository. What \<open>WithRetries\<close> sees of it is the outcome of each \<open>select\<close> between
  the cursor's two channels; \<open>policy\<close> gives that outcome for the \<open>i\<close>-th wait of a call
  (counted from 0). Every call of \<open>WithRetries\<close> starts a cursor of its own, and all of
  them behave alike. The ceiling \<open>retries\<close> is a Go \<open>int\<close>; the local counter of the loop
  starts at \<open>-1\<close> and would need more than \<open>2^31\<close> rounds to wrap, so both are integers
  here.
\<close>

datatype signal = Done | Next

record Retryer =
  policy :: "nat \<Rightarrow> signal"
  retries :: int

text \<open>
  The body of the \<open>for\<close> loop of \<open>WithRetries\<close>. The operation \<open>exec\<close> is a closure: it
  reads and updates the state \<open>'s\<close> it has captured. \<open>n\<close> is the local counter \<open>retries\<close>
  on entry to the iteration. The loop has no bound of its own, so not returning is the
  value \<open>None\<close>. The calls of the logger do not touch the control flow and are left out.
\<close>

partial_function (option) retry_loop ::
  "Retryer \<Rightarrow> ('s \<Rightarrow> error option \<times> 's) \<Rightarrow> int \<Rightarrow> 's \<Rightarrow> (error option \<times> 's) option"
where
  "retry_loop b exec n s =
     (case exec s of
        (None, s') \<Rightarrow> Some (None, s')
      | (Some err, s') \<Rightarrow>
          if errors_Is err ErrPermanent then Some (Some err, s')
          else if n + 1 = retries b then Some (Some err, s')
          else (case policy b (nat (n + 1)) of
                  Done \<Rightarrow> Some (Some err, s')
                | Next \<Rightarrow> retry_loop b exec (n + 1) s'))"

declare retry_loop.simps [code]

definition WithRetries ::
  "Retryer \<Rightarrow> ('s \<Rightarrow> error option \<times> 's) \<Rightarrow> 's \<Rightarrow> (error option \<times> 's) option"
where
  "WithRetries b exec s = retry_loop b exec (- 1) s"

subsection \<open>retryer/retryer\_test.go\<close>

text \<open>The test's operation: it counts its calls and answers by the number of the call.\<close>

record ExecTester =
  NOfCalls :: nat
  op :: "nat \<Rightarrow> error option"

definition exec :: "ExecTester \<Rightarrow> error option \<times> ExecTester" where
  "exec e = (let e' = e\<lparr>NOfCalls := NOfCalls e + 1\<rparr> in (op e' (NOfCalls e'), e'))"

section \<open>aborted/checks.go\<close>

text \<open>
  The HTTP client and the JSON decoder belong to the Go standard library. A response is
  what the code reads of it: the status code, and what \<open>dec.Decode(&ids)\<close> does to the
  slice it is handed, that is, the slice it leaves in \<open>ids\<close> and the error it returns.
  The two are independent: \<open>encoding/json\<close> returns a syntax error before it stores
  anything, but on a value of the wrong type it skips that value, completes the decoding
  as best it can and returns the error at the end, so that \<open>ids\<close> may have been written
  although an error is returned.
\<close>

record Response =
  StatusCode :: int
  Decode :: "string list \<Rightarrow> string list \<times> error option"

text \<open>
  The remote endpoint: \<open>responses w i\<close> is the outcome of the \<open>i\<close>-th request sent so far
  (an error of the transport, or a response), \<open>requests w\<close> counts the requests sent.
\<close>

record world =
  responses :: "nat \<Rightarrow> error + Response"
  requests :: nat

definition client_Get :: "world \<Rightarrow> (error + Response) \<times> world" where
  "client_Get w = (responses w (requests w), w\<lparr>requests := requests w + 1\<rparr>)"

text \<open>
  \<open>Checks\<close>: the set \<open>canceled\<close> is the key set of the Go map; the retryer is
  \<open>retryer.Retryer\<close>. The model is sequential, so the lock is not represented.
\<close>

record Checks =
  addr :: string
  canceled :: "string set"
  retryer :: Retryer

text \<open>
  The closure handed to \<open>WithRetries\<close> in \<open>get\<close>. It captures the variable \<open>ids\<close> of
  \<open>get\<close>; its \<open>err\<close> is a variable of its own, declared by \<open>resp, err := ...\<close>.
\<close>

definition get_exec :: "string list \<times> world \<Rightarrow> error option \<times> (string list \<times> world)" where
  "get_exec = (\<lambda>(ids, w).
     case client_Get w of
       (Inl err, w') \<Rightarrow> (Some err, (ids, w'))
     | (Inr resp, w') \<Rightarrow>
         if StatusCode resp \<noteq> 200
         then (Some (Errorf ''%s, %w'' ErrPermanent), (ids, w'))
         else (case Decode resp [''''] of
                 (ids', Some err) \<Rightarrow> (Some (Errorf ''%s, %w'' ErrPermanent), (ids', w'))
               | (ids', None) \<Rightarrow> (None, (ids', w'))))"

text \<open>
  \<open>get\<close>: the value returned by \<open>WithRetries\<close> is dropped and the variable \<open>err\<close> of
  \<open>get\<close> is never assigned, so the error returned is the \<open>nil\<close> it was declared with.
\<close>

definition get :: "Checks \<Rightarrow> world \<Rightarrow> ((string list \<times> error option) \<times> world) option" where
  "get c w =
     (let err = None in
      case WithRetries (retryer c) get_exec ([], w) of
        None \<Rightarrow> None
      | Some (_, (ids, w')) \<Rightarrow> Some ((ids, err), w'))"

definition IsAborted ::
  "Checks \<Rightarrow> world \<Rightarrow> string \<Rightarrow> ((bool \<times> error option) \<times> Checks \<times> world) option"
where
  "IsAborted c w ID =
     (if ID \<in> canceled c then Some ((True, None), c, w)
      else case get c w of
        None \<Rightarrow> None
      | Some ((ids, Some err), w') \<Rightarrow> Some ((False, Some err), c, w')
      | Some ((ids, None), w') \<Rightarrow>
          (let c' = c\<lparr>canceled := fold insert ids {}\<rparr>
           in Some ((ID \<in> canceled c', None), c', w')))"

text \<open>A sequence of lookups, one after the other, on the same \<open>Checks\<close>.\<close>

fun IsAborted_seq ::
  "Checks \<Rightarrow> world \<Rightarrow> string list \<Rightarrow> ((bool \<times> error option) list \<times> Checks \<times> world) option"
where
  "IsAborted_seq c w [] = Some ([], c, w)"
| "IsAborted_seq c w (ID # IDs) =
     (case IsAborted c w ID of
        None \<Rightarrow> None
      | Some (r, c', w') \<Rightarrow>
          (case IsAborted_seq c' w' IDs of
             None \<Rightarrow> None
           | Some (rs, c'', w'') \<Rightarrow> Some (r # rs, c'', w'')))"

section \<open>The Docker backend (unnamed/part\_000)\<close>

type_synonym bytes = "8 word list"

text \<open>
  The fields of \<open>backend.RunParams\<close> and \<open>config.RegistryConfig\<close> that the file reads,
  and \<open>backend.RunResult\<close>. A \<open>nil\<close> byte slice is the empty list.
\<close>

record RunParams =
  CheckID :: string
  CheckTypeName :: string
  ChecktypeVersion :: string
  Image :: string
  Target :: string
  AssetType :: string
  Options :: string
  RequiredVars :: "string list"

record RunResult =
  Output :: bytes
  Error :: "error option"

record RegistryConfig =
  Server :: string

text \<open>
  The names of the environment variables are constants of the package \<open>backend\<close>; an
  entry \<open>fmt.Sprintf("%s=%s", name, value)\<close> of the environment is the pair of the two.
\<close>

datatype env_name =
    CheckIDVar
  | ChecktypeNameVar
  | ChecktypeVersionVar
  | CheckTargetVar
  | CheckAssetTypeVar
  | CheckOptionsVar
  | AgentAddressVar
  | Required string

record RunConfig =
  Hostname :: string
  ConfigImage :: string
  Env :: "(env_name \<times> string) list"

text \<open>
  The context a client call is given: the one \<open>Run\<close> received from its caller, or a fresh
  \<open>context.Background()\<close>.
\<close>

datatype ctx = Ctx | Background

text \<open>
  What a job does to the world, in order: the calls of the Docker client with their
  arguments, the calls of the logger (by format string), the closing of the log reader and
  the send on the result channel. A send is recorded when it completes, that is, when the
  caller has received the value (the channel has no buffer). The timeout of a stop
  request is in seconds. Stopping and removing a container are the calls
  \<open>ContainerStop\<close> and \<open>ContainerRemove\<close>: what the daemon answers is ignored for the
  first and only logged for the second.
\<close>

datatype event =
    Pull ctx string
  | Create ctx RunConfig string
  | ContainerStart ctx string
  | ContainerWait ctx string
  | ContainerStop ctx string nat
  | ContainerLogs ctx string
  | Close
  | ContainerRemove ctx string bool
  | Debugf string
  | Log_Errorf string
  | Send RunResult

text \<open>
  The log reader, as \<open>stdcopy.StdCopy\<close> (a library of Docker) demultiplexes it: the bytes
  it writes to the two buffers and the error it returns.
\<close>

record reader =
  stdout :: bytes
  stderr :: bytes
  copy_err :: "error option"

text \<open>
  The answers of the Docker daemon to the calls made for one job, and the behaviour of
  the cursor of the pull backoff policy (the outcome of the \<open>i\<close>-th \<open>backoff.Continue\<close>).
\<close>

record docker =
  pull_policy :: "nat \<Rightarrow> signal"
  Pull_err :: "nat \<Rightarrow> error option"
  Create_res :: "string \<times> error option"
  Start_err :: "error option"
  Wait_res :: "int \<times> error option"
  Stop_err :: "error option"
  Logs_res :: "error + reader"
  Remove_err :: "error option"

record Backend =
  config :: RegistryConfig
  agentAddr :: string
  checkVars :: "string \<rightharpoonup> string"

definition abortTimeout :: nat where
  "abortTimeout = 5"

text \<open>\<open>dockerVars\<close>: a key missing from the map reads as the empty string.\<close>

fun dockerVars :: "string list \<Rightarrow> (string \<rightharpoonup> string) \<Rightarrow> (env_name \<times> string) list" where
  "dockerVars [] envVars = []"
| "dockerVars (requiredVar # requiredVars) envVars =
     (Required requiredVar, (case envVars requiredVar of None \<Rightarrow> [] | Some v \<Rightarrow> v))
       # dockerVars requiredVars envVars"

definition getRunConfig :: "Backend \<Rightarrow> RunParams \<Rightarrow> RunConfig" where
  "getRunConfig b params =
     (let vars = dockerVars (RequiredVars params) (checkVars b) in
      \<lparr>Hostname = CheckID params,
       ConfigImage = Image params,
       Env = [(CheckIDVar, CheckID params),
              (ChecktypeNameVar, CheckTypeName params),
              (ChecktypeVersionVar, ChecktypeVersion params),
              (CheckTargetVar, Target params),
              (CheckAssetTypeVar, AssetType params),
              (CheckOptionsVar, Options params),
              (AgentAddressVar, agentAddr b)] @ vars\<rparr>)"

text \<open>\<open>bytes.Join\<close>.\<close>

fun Join :: "bytes list \<Rightarrow> bytes \<Rightarrow> bytes" where
  "Join [] sep = []"
| "Join [x] sep = x"
| "Join (x # y # ys) sep = x @ sep @ Join (y # ys) sep"

definition readContainerLogs :: "reader \<Rightarrow> bytes \<times> error option" where
  "readContainerLogs r =
     (case copy_err r of
        Some err \<Rightarrow> ([], Some err)
      | None \<Rightarrow>
          (let outContent = stdout r; errContent = stderr r;
               contents = [] @ [outContent] @ [errContent]
           in (Join contents [10], None)))"

text \<open>
  The function deferred in \<open>run\<close> once the container exists: it runs when \<open>run\<close> returns.
\<close>

definition deferred_remove :: "docker \<Rightarrow> string \<Rightarrow> event list" where
  "deferred_remove d contID =
     ContainerRemove Background contID True
       # (case Remove_err d of
            Some removeErr \<Rightarrow> [Log_Errorf ''error removing container %s: %v'']
          | None \<Rightarrow> [])"

text \<open>
  \<open>run\<close>, from the call of \<open>ContainerStart\<close> to its \<open>return\<close>; the deferred
  \<open>r.Close()\<close> runs at the return, before the function deferred earlier.
\<close>

definition run_created :: "docker \<Rightarrow> RunParams \<Rightarrow> RunConfig \<Rightarrow> string \<Rightarrow> event list" where
  "run_created d params cfg contID =
     ContainerStart Ctx contID #
     (case Start_err d of
        Some err \<Rightarrow>
          [Send \<lparr>Output = [],
                 Error = Some (Errorf ''error starting container for check %s: %w'' err)\<rparr>]
      | None \<Rightarrow>
          ContainerWait Ctx contID #
          (let err = snd (Wait_res d) in
           if err \<noteq> None \<and> \<not> Is err Canceled \<and> \<not> Is err DeadlineExceeded
           then [Send \<lparr>Output = [],
                       Error = map_option (Errorf ''error running container for check %s: %w'') err\<rparr>]
           else if Is err Canceled \<or> Is err DeadlineExceeded
           then [ContainerStop Background contID abortTimeout, Send \<lparr>Output = [], Error = err\<rparr>]
           else
             ContainerLogs Ctx contID #
             (case Logs_res d of
                Inl err \<Rightarrow>
                  [Send \<lparr>Output = [],
                         Error = Some (Errorf ''error getting logs for check %s: %w'' err)\<rparr>]
              | Inr r \<Rightarrow>
                  (case readContainerLogs r of
                     (out, Some err) \<Rightarrow>
                       [Send \<lparr>Output = [],
                              Error = Some (Errorf ''error reading logs for check %s: %w'' err)\<rparr>]
                   | (out, None) \<Rightarrow> [Send \<lparr>Output = out, Error = None\<rparr>])
                  @ [Close])))"

definition run :: "Backend \<Rightarrow> docker \<Rightarrow> RunParams \<Rightarrow> event list" where
  "run b d params =
     (let cfg = getRunConfig b params in
      Debugf ''fetching check variables from configuration %+v'' #
      Create Ctx cfg (CheckID params) #
      (case Create_res d of
         (contID, Some err) \<Rightarrow> [Send \<lparr>Output = [], Error = Some err\<rparr>]
       | (contID, None) \<Rightarrow> run_created d params cfg contID @ deferred_remove d contID))"

text \<open>
  The loop of \<open>pullWithBackoff\<close>; \<open>i\<close> counts its iterations. The policy alone bounds
  it, so not returning is the value \<open>None\<close>.
\<close>

partial_function (option) pull_loop ::
  "docker \<Rightarrow> string \<Rightarrow> nat \<Rightarrow> event list \<Rightarrow> (error option \<times> event list) option"
where
  "pull_loop d img i evs =
     (case pull_policy d i of
        Done \<Rightarrow> Some (Some (Other ''backoff retry exceeded pulling Docker image''), evs)
      | Next \<Rightarrow>
          (case Pull_err d i of
             None \<Rightarrow> Some (None, evs @ [Pull Ctx img])
           | Some err \<Rightarrow>
               pull_loop d img (i + 1)
                 (evs @ [Pull Ctx img, Log_Errorf ''Error pulling Docker image %s''])))"

declare pull_loop.simps [code]

definition pullWithBackoff :: "docker \<Rightarrow> string \<Rightarrow> (error option \<times> event list) option" where
  "pullWithBackoff d img = pull_loop d img 0 []"

text \<open>The values sent on the result channel, in order.\<close>

fun sent :: "event list \<Rightarrow> RunResult list" where
  "sent [] = []"
| "sent (Send r # evs) = r # sent evs"
| "sent (e # evs) = sent evs"

text \<open>
  What \<open>Run\<close> returns: the channel \<open>res\<close>, as the values the job sends on it
  (\<open>None\<close> is the \<open>nil\<close> channel), and the error; \<open>trace\<close> is all that happened, the
  job started with \<open>go\<close> included.
\<close>

record Run_return =
  Run_res :: "RunResult list option"
  Run_err :: "error option"
  trace :: "event list"

definition Run :: "Backend \<Rightarrow> docker \<Rightarrow> RunParams \<Rightarrow> Run_return option" where
  "Run b d params =
     (case (if Server (config b) \<noteq> [] then pullWithBackoff d (Image params) else Some (None, [])) of
        None \<Rightarrow> None
      | Some (Some e, evs) \<Rightarrow> Some \<lparr>Run_res = None, Run_err = Some e, trace = evs\<rparr>
      | Some (None, evs) \<Rightarrow>
          (let job = run b d params
           in Some \<lparr>Run_res = Some (sent job), Run_err = None, trace = evs @ job\<rparr>))"


fun is_Remove :: "event \<Rightarrow> bool" where
  "is_Remove (ContainerRemove c i f) = True"
| "is_Remove e = False"

fun is_Stop :: "event \<Rightarrow> bool" where
  "is_Stop (ContainerStop c i t) = True"
| "is_Stop e = False"

fun is_Logs :: "event \<Rightarrow> bool" where
  "is_Logs (ContainerLogs c i) = True"
| "is_Logs e = False"


text \<open>
  The terminal result of a job as the state machine of the specification gives it: the
  failure of the first step that fails (create, start, wait, log collection), wrapped with
  the job that it belongs to except for the create step and for a cancelled wait, and
  otherwise the output, standard output before standard error with a newline between.
\<close>

definition terminal_result :: "docker \<Rightarrow> RunResult" where
  "terminal_result d =
     (case snd (Create_res d) of
        Some e \<Rightarrow> \<lparr>Output = [], Error = Some e\<rparr>
      | None \<Rightarrow>
     (case Start_err d of
        Some e \<Rightarrow> \<lparr>Output = [], Error = Some (Errorf ''error starting container for check %s: %w'' e)\<rparr>
      | None \<Rightarrow>
     (case snd (Wait_res d) of
        Some e \<Rightarrow>
          if errors_Is e Canceled \<or> errors_Is e DeadlineExceeded
          then \<lparr>Output = [], Error = Some e\<rparr>
          else \<lparr>Output = [], Error = Some (Errorf ''error running container for check %s: %w'' e)\<rparr>
      | None \<Rightarrow>
     (case Logs_res d of
        Inl e \<Rightarrow> \<lparr>Output = [], Error = Some (Errorf ''error getting logs for check %s: %w'' e)\<rparr>
      | Inr r \<Rightarrow>
     (case copy_err r of
        Some e \<Rightarrow> \<lparr>Output = [], Error = Some (Errorf ''error reading logs for check %s: %w'' e)\<rparr>
      | None \<Rightarrow> \<lparr>Output = stdout r @ [10] @ stderr r, Error = None\<rparr>)))))"

text \<open>The trace of \<open>k\<close> pulls of an image that fail one after the other.\<close>

definition failed_pulls :: "string \<Rightarrow> nat \<Rightarrow> event list" where
  "failed_pulls img k =
     concat (replicate k [Pull Ctx img, Log_Errorf ''Error pulling Docker image %s''])"

section \<open>cmd/cmd.go\<close>

text \<open>A receive from a channel either delivers a value or blocks for ever.\<close>

datatype 'a recv = Blocks | Recv 'a

text \<open>The case of the \<open>select\<close> that fires: a signal, or the value read from \<open>stopperDone\<close>.\<close>

datatype trigger = Sig | Stopper "error option"

text \<open>
  What the collaborators of \<open>MainWithExitCode\<close> answer in one run of the process: the
  arguments, the errors of the constructors, the case of the \<open>select\<close>, the values read
  from the three channels while draining and the error of \<open>srv.Shutdown\<close>.
\<close>

record process =
  Args :: "string list"
  ReadConfig_err :: "error option"
  log_New_err :: "error option"
  bc_err :: "error option"
  results_New_err :: "error option"
  NewWriter_err :: "error option"
  select_case :: "trigger recv"
  stopperDone :: "error option recv"
  qrdone :: "error option recv"
  Shutdown_err :: "error option"
  httpDone :: "error option recv"

text \<open>
  What the process does that can be seen from outside: text on standard error, entries of
  the log (by format string), the cancellation of the queue reader's context.
\<close>

datatype action = Fprint string | Log_error string | Log_info string | Cancelqr

text \<open>
  The drain sequence, from the comment "Wait fot the queue stopper to finish" to the end.
  The exit code is \<open>None\<close> when the function never returns.
\<close>

definition drain :: "process \<Rightarrow> action list \<Rightarrow> int option \<times> action list" where
  "drain p acts =
     (case stopperDone p of
        Blocks \<Rightarrow> (None, acts)
      | Recv e1 \<Rightarrow>
          (let acts1 = acts @ (if e1 \<noteq> None \<and> \<not> Is e1 Canceled
                               then [Log_error ''error stopping the reader tracker %+v''] else [])
           in case qrdone p of
                Blocks \<Rightarrow> (None, acts1)
              | Recv e2 \<Rightarrow>
                  (let acts2 = acts1 @ (if e2 \<noteq> None \<and> \<not> Is e2 Canceled
                                        then [Log_error ''error stopping agent %+v''] else [])
                   in case Shutdown_err p of
                        Some e3 \<Rightarrow> (Some 1, acts2 @ [Log_error ''error stoping http server: %+v''])
                      | None \<Rightarrow>
                          (case httpDone p of
                             Blocks \<Rightarrow> (None, acts2)
                           | Recv e4 \<Rightarrow>
                               if e4 \<noteq> None \<and> \<not> Is e4 ErrServerClosed
                               then (Some 1, acts2 @ [Log_error ''http server stopped with error: %+v''])
                               else (Some 0, acts2)))))"

definition MainWithExitCode :: "process \<Rightarrow> int option \<times> action list" where
  "MainWithExitCode p =
     (if length (Args p) < 2 then (Some 1, [Fprint ''Usage: vulcan-agent config_file''])
      else if ReadConfig_err p \<noteq> None
      then (Some 1, [Fprint ''error reading configuration file: %v''])
      else if log_New_err p \<noteq> None
      then (Some 1, [Fprint ''error reading creating log: %v''])
      else if bc_err p \<noteq> None
      then (Some 1, [Log_error ''error creating the backend to run the checks %v''])
      else if results_New_err p \<noteq> None
      then (Some 1, [Log_error ''error creating results client %+v''])
      else if NewWriter_err p \<noteq> None
      then (Some 1, [Log_error ''error creating sqs writer %+v''])
      else
        (let acts = [Log_info ''agent running on address %s''] in
         case select_case p of
           Blocks \<Rightarrow> (None, acts)
         | Recv Sig \<Rightarrow> drain p (acts @ [Cancelqr])
         | Recv (Stopper e) \<Rightarrow>
             drain p (acts @ [Log_info ''shutting down agent because more than %+v seconds elapsed without messages read'',
                              Cancelqr])))"

text \<open>The process comes up: every constructor succeeds and one case of the \<open>select\<close> fires.\<close>

definition started :: "process \<Rightarrow> bool" where
  "started p =
     (2 \<le> length (Args p) \<and> ReadConfig_err p = None \<and> log_New_err p = None \<and> bc_err p = None
      \<and> results_New_err p = None \<and> NewWriter_err p = None \<and> select_case p \<noteq> Blocks)"

section \<open>Scenarios\<close>

subsection \<open>Retryer\<close>

text \<open>
  The values of \<open>retryer\_test.go\<close>: the error \<open>errTest\<close>, the operation that always
  fails with it, and the one that fails with a wrapped \<open>ErrPermanent\<close> on one call (the
  second, in the test). \<open>granting n\<close> is a cursor that signals \<open>Next\<close> at \<open>n\<close> waits
  and is done afterwards. \<open>test_retryer\<close> has the ceiling 2 of the tests and a cursor
  that grants three waits, so that the ceiling is met before the cursor is done.
\<close>

definition errTest :: error where
  "errTest = Other ''test''"

definition always_fails :: ExecTester where
  "always_fails = \<lparr>NOfCalls = 0, op = (\<lambda>calls. Some errTest)\<rparr>"

definition permanent_on :: "nat \<Rightarrow> ExecTester" where
  "permanent_on k =
     \<lparr>NOfCalls = 0,
      op = (\<lambda>calls. if calls = k then Some (Errorf ''a permanent error %w'' ErrPermanent)
                     else Some errTest)\<rparr>"

definition granting :: "nat \<Rightarrow> nat \<Rightarrow> signal" where
  "granting n = (\<lambda>i. if i < n then Next else Done)"

definition test_retryer :: Retryer where
  "test_retryer = \<lparr>policy = granting 3, retries = 2\<rparr>"

subsection \<open>Aborted checks\<close>

text \<open>
  A cache that holds the identifier \<open>a\<close>, with the retryer of the tests. Endpoints: one
  that answers every request with the given response, one whose first request fails in the
  transport. Responses: status 500; status 200 with a body that is not JSON, which the
  decoder rejects without storing anything; status 200 with the body \<open>["a", 1]\<close>, for
  which \<open>encoding/json\<close> stores what it can (\<open>"a"\<close>, and the empty string for the number)
  and reports the mismatch of types; status 200 with the array \<open>["a", "b"]\<close>.
\<close>

definition checks_a :: Checks where
  "checks_a = \<lparr>addr = ''http://localhost/aborted'', canceled = {''a''}, retryer = test_retryer\<rparr>"

definition endpoint :: "Response \<Rightarrow> world" where
  "endpoint r = \<lparr>responses = (\<lambda>i. Inr r), requests = 0\<rparr>"

definition flaky_endpoint :: "Response \<Rightarrow> world" where
  "flaky_endpoint r =
     \<lparr>responses = (\<lambda>i. if i = 0 then Inl (Other ''connection reset'') else Inr r), requests = 0\<rparr>"

definition unreachable_endpoint :: world where
  "unreachable_endpoint =
     \<lparr>responses = (\<lambda>i. Inl (Other ''connection refused'')), requests = 0\<rparr>"

definition status_500 :: Response where
  "status_500 = \<lparr>StatusCode = 500, Decode = (\<lambda>ids. (ids, None))\<rparr>"



definition snapshot_ab :: Response where
  "snapshot_ab = \<lparr>StatusCode = 200, Decode = (\<lambda>ids. ([''a'', ''b''], None))\<rparr>"

subsection \<open>Docker backend\<close>

text \<open>
  A backend without a registry and one with a registry; a job; a daemon for which every
  call succeeds and whose container writes \<open>out\<close> and \<open>err\<close>; the same daemon when the
  context is cancelled during the wait, when every pull fails, and when the first pull
  fails and the second succeeds.
\<close>

definition backend0 :: Backend where
  "backend0 = \<lparr>config = \<lparr>Server = ''''\<rparr>, agentAddr = ''172.17.0.1:8080'',
               checkVars = [''TOKEN'' \<mapsto> ''secret'']\<rparr>"

definition registry_backend :: Backend where
  "registry_backend = backend0\<lparr>config := \<lparr>Server = ''registry.example.com''\<rparr>\<rparr>"

definition params0 :: RunParams where
  "params0 = \<lparr>CheckID = ''check-1'', CheckTypeName = ''vulcan-nessus'', ChecktypeVersion = ''1'',
              Image = ''registry.example.com/vulcan-nessus:1'', Target = ''example.com'',
              AssetType = ''Hostname'', Options = ''{}'', RequiredVars = [''TOKEN'']\<rparr>"

definition logs0 :: reader where
  "logs0 = \<lparr>stdout = [111, 117, 116], stderr = [101, 114, 114], copy_err = None\<rparr>"

definition docker_ok :: docker where
  "docker_ok = \<lparr>pull_policy = (\<lambda>i. if i < 3 then Next else Done), Pull_err = (\<lambda>i. None),
                Create_res = (''c1'', None), Start_err = None, Wait_res = (0, None),
                Stop_err = None, Logs_res = Inr logs0, Remove_err = None\<rparr>"

definition docker_cancelled :: docker where
  "docker_cancelled = docker_ok\<lparr>Wait_res := (0, Some Canceled)\<rparr>"

definition docker_pull_fails :: docker where
  "docker_pull_fails = docker_ok\<lparr>Pull_err := (\<lambda>i. Some (Other ''manifest unknown''))\<rparr>"

definition docker_pull_retry :: docker where
  "docker_pull_retry =
     docker_ok\<lparr>Pull_err := (\<lambda>i. if i = 0 then Some (Other ''connection reset'') else None)\<rparr>"

subsection \<open>Process\<close>

text \<open>
  A run that is stopped by a signal and drains cleanly; the same run when the idle tracker
  and the queue reader end with errors of their own; and when \<open>srv.Shutdown\<close> fails.
\<close>

definition process0 :: process where
  "process0 = \<lparr>Args = [''vulcan-agent'', ''config.toml''], ReadConfig_err = None,
               log_New_err = None, bc_err = None, results_New_err = None, NewWriter_err = None,
               select_case = Recv Sig,
               stopperDone = Recv (Some Canceled), qrdone = Recv (Some Canceled),
               Shutdown_err = None, httpDone = Recv (Some ErrServerClosed)\<rparr>"

definition process_drain_errors :: process where
  "process_drain_errors =
     process0\<lparr>stopperDone := Recv (Some (Other ''tracker failed'')),
              qrdone := Recv (Some (Other ''queue read failed''))\<rparr>"

definition process_unclean_shutdown :: process where
  "process_unclean_shutdown = process0\<lparr>Shutdown_err := Some DeadlineExceeded\<rparr>"

section \<open>Properties of the retry loop\<close>

text \<open>
  As long as the operation fails with an error that is not permanent, the ceiling is not
  reached and the cursor signals \<open>Next\<close>, the loop goes round: after \<open>k\<close> such rounds it
  stands at counter \<open>n + k\<close>, in the state the \<open>k\<close> invocations have produced.
\<close>

lemma retry_loop_skip:
  assumes "\<forall>j<k. \<exists>e. fst (f (((snd \<circ> f) ^^ j) s)) = Some e \<and> \<not> errors_Is e ErrPermanent
             \<and> n + 1 + int j \<noteq> retries b \<and> policy b (nat (n + 1 + int j)) = Next"
  shows "retry_loop b f n s = retry_loop b f (n + int k) (((snd \<circ> f) ^^ k) s)"
  using assms
proof (induction k arbitrary: n s)
  case 0
  then show ?case by simp
next
  case (Suc k)
  from Suc.prems have "\<exists>e. fst (f s) = Some e \<and> \<not> errors_Is e ErrPermanent
             \<and> n + 1 \<noteq> retries b \<and> policy b (nat (n + 1)) = Next"
    by (drule_tac x=0 in spec) simp
  then obtain e where e: "fst (f s) = Some e" "\<not> errors_Is e ErrPermanent"
      "n + 1 \<noteq> retries b" "policy b (nat (n + 1)) = Next"
    by blast
  obtain s' where s': "f s = (Some e, s')"
    using e(1) by (cases "f s") simp
  have step: "retry_loop b f n s = retry_loop b f (n + 1) s'"
    by (subst retry_loop.simps) (simp add: s' e)
  have "\<forall>j<k. \<exists>e. fst (f (((snd \<circ> f) ^^ j) s')) = Some e \<and> \<not> errors_Is e ErrPermanent
             \<and> (n + 1) + 1 + int j \<noteq> retries b \<and> policy b (nat ((n + 1) + 1 + int j)) = Next"
  proof (intro allI impI)
    fix j assume "j < k"
    then have "Suc j < Suc k" by simp
    with Suc.prems obtain e' where
      "fst (f (((snd \<circ> f) ^^ Suc j) s)) = Some e'" "\<not> errors_Is e' ErrPermanent"
      "n + 1 + int (Suc j) \<noteq> retries b" "policy b (nat (n + 1 + int (Suc j))) = Next"
      by blast
    moreover have "((snd \<circ> f) ^^ Suc j) s = ((snd \<circ> f) ^^ j) s'"
      by (simp add: funpow_swap1 s')
    moreover have "n + 1 + int (Suc j) = (n + 1) + 1 + int j" by simp
    ultimately show "\<exists>e. fst (f (((snd \<circ> f) ^^ j) s')) = Some e \<and> \<not> errors_Is e ErrPermanent
             \<and> (n + 1) + 1 + int j \<noteq> retries b \<and> policy b (nat ((n + 1) + 1 + int j)) = Next"
      by metis
  qed
  from Suc.IH[OF this]
  have ih: "retry_loop b f (n + 1) s' = retry_loop b f (n + 1 + int k) (((snd \<circ> f) ^^ k) s')" .
  have eq1: "((snd \<circ> f) ^^ Suc k) s = ((snd \<circ> f) ^^ k) s'"
    by (simp add: funpow_swap1 s')
  have eq2: "n + int (Suc k) = n + 1 + int k" by simp
  show ?case by (simp only: eq1 eq2 step ih)
qed

lemma exec_funpow: "((snd \<circ> exec) ^^ j) t = t\<lparr>NOfCalls := NOfCalls t + j\<rparr>"
  by (induction j) (simp_all add: exec_def Let_def)

lemma exec_at: "exec (t\<lparr>NOfCalls := c\<rparr>) = (op t (c + 1), t\<lparr>NOfCalls := c + 1\<rparr>)"
  by (simp add: exec_def Let_def)

text \<open>The same for the tester of the tests, whose calls are numbered from 1.\<close>

lemma WithRetries_tester_skip:
  assumes calls: "NOfCalls t = 0"
      and fails: "\<forall>j. 1 \<le> j \<and> j \<le> k \<longrightarrow> (\<exists>e. op t j = Some e \<and> \<not> errors_Is e ErrPermanent)"
      and ceil: "int k \<le> retries b \<or> retries b < 0"
      and grants: "\<forall>i<k. policy b i = Next"
  shows "WithRetries b exec t = retry_loop b exec (int k - 1) (t\<lparr>NOfCalls := k\<rparr>)"
proof -
  have "\<forall>j<k. \<exists>e. fst (exec (((snd \<circ> exec) ^^ j) t)) = Some e \<and> \<not> errors_Is e ErrPermanent
             \<and> (- 1) + 1 + int j \<noteq> retries b \<and> policy b (nat ((- 1) + 1 + int j)) = Next"
  proof (intro allI impI)
    fix j assume j: "j < k"
    then obtain e where e: "op t (j + 1) = Some e" "\<not> errors_Is e ErrPermanent"
      using fails by (metis Suc_eq_plus1 Suc_leI le_add2)
    have "fst (exec (((snd \<circ> exec) ^^ j) t)) = Some e"
      using e(1) by (simp add: exec_funpow exec_at calls)
    moreover have "(- 1) + 1 + int j \<noteq> retries b" using j ceil by auto
    moreover have "policy b (nat ((- 1) + 1 + int j)) = Next" using grants j by simp
    ultimately show "\<exists>e. fst (exec (((snd \<circ> exec) ^^ j) t)) = Some e \<and> \<not> errors_Is e ErrPermanent
             \<and> (- 1) + 1 + int j \<noteq> retries b \<and> policy b (nat ((- 1) + 1 + int j)) = Next"
      using e(2) by blast
  qed
  from retry_loop_skip[OF this]
  have "retry_loop b exec (- 1) t = retry_loop b exec (- 1 + int k) (((snd \<circ> exec) ^^ k) t)" .
  then show ?thesis
    by (simp add: WithRetries_def exec_funpow calls)
qed

text \<open>
  Claim C2. An operation fails on every invocation with an error that is not permanent;
  the ceiling \<open>N = retries b\<close> is not negative, and the backoff cursor signals \<open>Next\<close>
  at each of the \<open>N\<close> waits that the ceiling allows (\<open>NewRetryer\<close> builds the policy and
  the ceiling from the same number). Then \<open>WithRetries\<close> returns, has invoked the
  operation exactly \<open>N + 1\<close> times, and returns the error of the last invocation.
\<close>

theorem WithRetries_always_failing:
  assumes calls: "NOfCalls t = 0"
      and fails: "\<forall>i. \<exists>e. op t i = Some e \<and> \<not> errors_Is e ErrPermanent"
      and ceil: "0 \<le> retries b"
      and grants: "\<forall>i<nat (retries b). policy b i = Next"
  shows "WithRetries b exec t
           = Some (op t (nat (retries b) + 1), t\<lparr>NOfCalls := nat (retries b) + 1\<rparr>)"
proof -
  let ?N = "nat (retries b)"
  have "WithRetries b exec t = retry_loop b exec (int ?N - 1) (t\<lparr>NOfCalls := ?N\<rparr>)"
    using calls fails ceil grants by (intro WithRetries_tester_skip) auto
  moreover obtain e where e: "op t (?N + 1) = Some e" "\<not> errors_Is e ErrPermanent"
    using fails by blast
  moreover have "retry_loop b exec (int ?N - 1) (t\<lparr>NOfCalls := ?N\<rparr>)
                   = Some (Some e, t\<lparr>NOfCalls := ?N + 1\<rparr>)"
    using ceil e by (subst retry_loop.simps) (auto simp: exec_at)
  ultimately show ?thesis by simp
qed

text \<open>The test \<open>RetriesIfNotShortCircuit\<close>: ceiling 2, three calls, the error of the operation.\<close>

theorem WithRetries_always_failing_witness:
  "WithRetries test_retryer exec always_fails = Some (Some errTest, always_fails\<lparr>NOfCalls := 3\<rparr>)"
  using WithRetries_always_failing [of always_fails test_retryer]
  by (simp add: always_fails_def test_retryer_def granting_def errTest_def)

text \<open>
  Claim C3. The first error of an operation that wraps \<open>ErrPermanent\<close> comes on
  invocation \<open>k\<close>, with \<open>1 \<le> k \<le> retries b\<close>; the invocations before it fail with
  errors that are not permanent, and the backoff cursor signals \<open>Next\<close> at the \<open>k - 1\<close>
  waits that lead to invocation \<open>k\<close>. Then \<open>WithRetries\<close> returns after exactly \<open>k\<close>
  invocations, whatever is left of the retry budget, and the error it returns is that of
  invocation \<open>k\<close>, which matches \<open>ErrPermanent\<close> by its chain of causes.
\<close>

theorem WithRetries_permanent:
  assumes calls: "NOfCalls t = 0"
      and k: "1 \<le> k" "int k \<le> retries b"
      and fails: "\<forall>j. 1 \<le> j \<and> j < k \<longrightarrow> (\<exists>e. op t j = Some e \<and> \<not> errors_Is e ErrPermanent)"
      and perm: "op t k = Some e" "errors_Is e ErrPermanent"
      and grants: "\<forall>i<k - 1. policy b i = Next"
  shows "WithRetries b exec t = Some (Some e, t\<lparr>NOfCalls := k\<rparr>) \<and> Is (Some e) ErrPermanent"
proof -
  have "WithRetries b exec t = retry_loop b exec (int (k - 1) - 1) (t\<lparr>NOfCalls := k - 1\<rparr>)"
    using calls fails k grants by (intro WithRetries_tester_skip) auto
  moreover have "retry_loop b exec (int (k - 1) - 1) (t\<lparr>NOfCalls := k - 1\<rparr>)
                   = Some (Some e, t\<lparr>NOfCalls := k\<rparr>)"
    using perm k by (subst retry_loop.simps) (auto simp: exec_at)
  ultimately show ?thesis using perm by simp
qed

text \<open>The test \<open>StopRetryingIfPermanentError\<close>: permanent on call 2 of 3 allowed, two calls.\<close>

theorem WithRetries_permanent_witness:
  "WithRetries test_retryer exec (permanent_on 2) =
     Some (Some (Errorf ''a permanent error %w'' ErrPermanent), (permanent_on 2)\<lparr>NOfCalls := 2\<rparr>)
   \<and> Is (Some (Errorf ''a permanent error %w'' ErrPermanent)) ErrPermanent"
  using WithRetries_permanent [of "permanent_on 2" 2 test_retryer
                                  "Errorf ''a permanent error %w'' ErrPermanent"]
  by (simp add: permanent_on_def test_retryer_def granting_def errTest_def)

section \<open>Properties of the cache of aborted checks\<close>

lemma fold_insert_set: "fold insert xs A = set xs \<union> A"
  by (induction xs arbitrary: A) auto

text \<open>
  While the transport fails, the closure of \<open>get\<close> leaves \<open>ids\<close> alone and sends one more
  request each time.
\<close>

lemma get_exec_funpow:
  assumes "\<forall>j<k. \<exists>e. responses w (requests w + j) = Inl e"
  shows "((snd \<circ> get_exec) ^^ k) (ids, w) = (ids, w\<lparr>requests := requests w + k\<rparr>)"
  using assms
proof (induction k)
  case 0
  then show ?case by simp
next
  case (Suc k)
  from Suc.prems have "\<forall>j<k. \<exists>e. responses w (requests w + j) = Inl e" by auto
  from Suc.IH[OF this]
  have ih: "((snd \<circ> get_exec) ^^ k) (ids, w) = (ids, w\<lparr>requests := requests w + k\<rparr>)" .
  from Suc.prems obtain e where "responses w (requests w + k) = Inl e" by auto
  then have step: "get_exec (ids, w\<lparr>requests := requests w + k\<rparr>)
               = (Some e, (ids, w\<lparr>requests := requests w + Suc k\<rparr>))"
    by (simp add: get_exec_def client_Get_def)
  have "((snd \<circ> get_exec) ^^ Suc k) (ids, w)
          = (snd \<circ> get_exec) (((snd \<circ> get_exec) ^^ k) (ids, w))"
    unfolding funpow.simps by (rule o_apply)
  also have "\<dots> = (snd \<circ> get_exec) (ids, w\<lparr>requests := requests w + k\<rparr>)"
    by (simp only: ih)
  also have "\<dots> = (ids, w\<lparr>requests := requests w + Suc k\<rparr>)"
    by (simp only: o_apply step snd_conv)
  finally show ?case .
qed

text \<open>
  A refresh whose first \<open>k\<close> requests fail in the transport and are retried stands, after
  them, before request \<open>k\<close> with \<open>ids\<close> still \<open>nil\<close>.
\<close>

lemma WithRetries_get_exec_skip:
  assumes transport: "\<forall>j<k. \<exists>e. responses w (requests w + j) = Inl e \<and> \<not> errors_Is e ErrPermanent"
      and ceil: "\<forall>j<k. int j \<noteq> retries b"
      and grants: "\<forall>i<k. policy b i = Next"
  shows "WithRetries b get_exec (ids, w)
           = retry_loop b get_exec (int k - 1) (ids, w\<lparr>requests := requests w + k\<rparr>)"
proof -
  have "\<forall>j<k. \<exists>e. fst (get_exec (((snd \<circ> get_exec) ^^ j) (ids, w))) = Some e
             \<and> \<not> errors_Is e ErrPermanent
             \<and> (- 1) + 1 + int j \<noteq> retries b \<and> policy b (nat ((- 1) + 1 + int j)) = Next"
  proof (intro allI impI)
    fix j assume j: "j < k"
    then obtain e where e: "responses w (requests w + j) = Inl e" "\<not> errors_Is e ErrPermanent"
      using transport by blast
    have "\<forall>i<j. \<exists>e. responses w (requests w + i) = Inl e"
      using transport j by (meson less_trans)
    then have "((snd \<circ> get_exec) ^^ j) (ids, w) = (ids, w\<lparr>requests := requests w + j\<rparr>)"
      by (rule get_exec_funpow)
    then have "fst (get_exec (((snd \<circ> get_exec) ^^ j) (ids, w))) = Some e"
      using e(1) by (simp add: get_exec_def client_Get_def)
    moreover have "(- 1) + 1 + int j \<noteq> retries b" using j ceil by auto
    moreover have "policy b (nat ((- 1) + 1 + int j)) = Next" using grants j by simp
    ultimately show "\<exists>e. fst (get_exec (((snd \<circ> get_exec) ^^ j) (ids, w))) = Some e
             \<and> \<not> errors_Is e ErrPermanent
             \<and> (- 1) + 1 + int j \<noteq> retries b \<and> policy b (nat ((- 1) + 1 + int j)) = Next"
      using e(2) by blast
  qed
  from retry_loop_skip[OF this]
  have "retry_loop b get_exec (- 1) (ids, w)
          = retry_loop b get_exec (- 1 + int k) (((snd \<circ> get_exec) ^^ k) (ids, w))" .
  moreover have "((snd \<circ> get_exec) ^^ k) (ids, w) = (ids, w\<lparr>requests := requests w + k\<rparr>)"
    using transport by (intro get_exec_funpow) blast
  ultimately show ?thesis
    by (simp add: WithRetries_def)
qed

text \<open>
  When the response that ends the refresh has status 200, \<open>get\<close> returns what the decoder
  has left in \<open>ids\<close>, and no error, whether the decoder failed or not.
\<close>

lemma get_status_200:
  assumes transport: "\<forall>j<k. \<exists>e. responses w (requests w + j) = Inl e \<and> \<not> errors_Is e ErrPermanent"
      and ceil: "\<forall>j<k. int j \<noteq> retries (retryer c)"
      and grants: "\<forall>i<k. policy (retryer c) i = Next"
      and resp: "responses w (requests w + k) = Inr resp" "StatusCode resp = 200"
      and dec: "Decode resp [''''] = (xs, de)"
  shows "get c w = Some ((xs, None), w\<lparr>requests := requests w + k + 1\<rparr>)"
proof -
  have "WithRetries (retryer c) get_exec ([], w)
          = retry_loop (retryer c) get_exec (int k - 1) ([], w\<lparr>requests := requests w + k\<rparr>)"
    using transport ceil grants by (rule WithRetries_get_exec_skip)
  moreover have "get_exec ([], w\<lparr>requests := requests w + k\<rparr>)
      = ((case de of Some e \<Rightarrow> Some (Errorf ''%s, %w'' ErrPermanent) | None \<Rightarrow> None),
         (xs, w\<lparr>requests := requests w + k + 1\<rparr>))"
    using resp dec by (simp add: get_exec_def client_Get_def split: option.splits)
  ultimately have "\<exists>r. WithRetries (retryer c) get_exec ([], w)
          = Some (r, (xs, w\<lparr>requests := requests w + k + 1\<rparr>))"
    by (subst (asm) retry_loop.simps) (auto split: option.splits)
  then show ?thesis by (auto simp: get_def)
qed

lemma IsAborted_miss_200:
  assumes miss: "ID \<notin> canceled c"
      and transport: "\<forall>j<k. \<exists>e. responses w (requests w + j) = Inl e \<and> \<not> errors_Is e ErrPermanent"
      and ceil: "\<forall>j<k. int j \<noteq> retries (retryer c)"
      and grants: "\<forall>i<k. policy (retryer c) i = Next"
      and resp: "responses w (requests w + k) = Inr resp" "StatusCode resp = 200"
      and dec: "Decode resp [''''] = (xs, de)"
  shows "IsAborted c w ID = Some ((ID \<in> set xs, None), c\<lparr>canceled := set xs\<rparr>,
                                 w\<lparr>requests := requests w + k + 1\<rparr>)"
  using get_status_200[OF transport ceil grants resp dec] miss
  by (simp add: IsAborted_def fold_insert_set)

text \<open>The fast path: a cached identifier is answered from the set, and nothing changes.\<close>

lemma IsAborted_hit: "X \<in> canceled c \<Longrightarrow> IsAborted c w X = Some ((True, None), c, w)"
  by (simp add: IsAborted_def)

lemma IsAborted_seq_hits:
  "set IDs \<subseteq> canceled c \<Longrightarrow> IsAborted_seq c w IDs = Some (map (\<lambda>ID. (True, None)) IDs, c, w)"
  by (induction IDs) (simp_all add: IsAborted_hit)

text \<open>Whatever the endpoint does, a lookup that returns does not return an error.\<close>

lemma IsAborted_never_fails:
  "IsAborted c w ID = Some ((r, e), c', w') \<Longrightarrow> e = None"
  by (auto simp: IsAborted_def get_def split: if_splits option.splits prod.splits)

text \<open>
  Claim C1 asks that a lookup which misses the cache and whose fetch fails returns the
  error of the fetch and leaves the cached snapshot as it was. The code does neither. With
  the snapshot \<open>{a}\<close> cached, the lookup of \<open>b\<close> against an endpoint that answers every
  request with status 500 returns \<open>(false, nil)\<close> after one request and leaves the empty
  set in the cache; against an endpoint that refuses every connection it does the same
  after three requests. In both cases \<open>a\<close>, which was cached, is cached no longer.
\<close>

theorem IsAborted_failed_fetch_drops_snapshot:
  "IsAborted checks_a (endpoint status_500) ''b''
     = Some ((False, None), checks_a\<lparr>canceled := {}\<rparr>, (endpoint status_500)\<lparr>requests := 1\<rparr>)
   \<and> IsAborted checks_a unreachable_endpoint ''b''
     = Some ((False, None), checks_a\<lparr>canceled := {}\<rparr>, unreachable_endpoint\<lparr>requests := 3\<rparr>)
   \<and> ''a'' \<in> canceled checks_a \<and> ''a'' \<notin> canceled (checks_a\<lparr>canceled := {}\<rparr>)"
  by (simp add: IsAborted_def get_def WithRetries_def retry_loop.simps get_exec_def client_Get_def
        checks_a_def endpoint_def unreachable_endpoint_def status_500_def test_retryer_def granting_def)

text \<open>
  Claim C8. A lookup misses the cache and its refresh succeeds: after \<open>k\<close> requests that
  fail in the transport and are retried, the endpoint answers with status 200 and a body
  that decodes to the list \<open>ids\<close>, which contains \<open>X\<close>. Then the lookup installs the
  snapshot \<open>set ids\<close>, and from then on any number \<open>n\<close> of lookups of \<open>X\<close> return
  \<open>(true, nil)\<close> each, whatever the state \<open>w'\<close> of the endpoint, without a request (the
  count of requests is the same after as before) and without touching the snapshot.
\<close>

theorem IsAborted_cached:
  assumes miss: "ID \<notin> canceled c"
      and transport: "\<forall>j<k. \<exists>e. responses w (requests w + j) = Inl e \<and> \<not> errors_Is e ErrPermanent"
      and ceil: "\<forall>j<k. int j \<noteq> retries (retryer c)"
      and grants: "\<forall>i<k. policy (retryer c) i = Next"
      and resp: "responses w (requests w + k) = Inr resp" "StatusCode resp = 200"
      and dec: "Decode resp [''''] = (ids, None)"
      and X: "X \<in> set ids"
      and c': "c' = c\<lparr>canceled := set ids\<rparr>"
  shows "IsAborted c w ID = Some ((ID \<in> set ids, None), c', w\<lparr>requests := requests w + k + 1\<rparr>)
       \<and> IsAborted_seq c' w' (replicate n X) = Some (replicate n (True, None), c', w')"
proof -
  have "set (replicate n X) \<subseteq> canceled c'"
    using X c' by auto
  then have "IsAborted_seq c' w' (replicate n X) = Some (replicate n (True, None), c', w')"
    using IsAborted_seq_hits[of "replicate n X" c' w'] by (simp add: map_replicate_const)
  then show ?thesis
    using IsAborted_miss_200[OF miss transport ceil grants resp dec] c' by simp
qed

text \<open>
  An empty cache, a first request that fails in the transport, then the array
  \<open>["a", "b"]\<close>: the lookup of \<open>b\<close> installs both, and three lookups of \<open>a\<close> follow
  without a request.
\<close>

theorem IsAborted_cached_witness:
  "IsAborted (checks_a\<lparr>canceled := {}\<rparr>) (flaky_endpoint snapshot_ab) ''b''
     = Some ((True, None), checks_a\<lparr>canceled := {''a'', ''b''}\<rparr>,
             (flaky_endpoint snapshot_ab)\<lparr>requests := 2\<rparr>)
   \<and> IsAborted_seq (checks_a\<lparr>canceled := {''a'', ''b''}\<rparr>)
        ((flaky_endpoint snapshot_ab)\<lparr>requests := 2\<rparr>) (replicate 3 ''a'')
     = Some (replicate 3 (True, None), checks_a\<lparr>canceled := {''a'', ''b''}\<rparr>,
             (flaky_endpoint snapshot_ab)\<lparr>requests := 2\<rparr>)"
  using IsAborted_cached [of "''b''" "checks_a\<lparr>canceled := {}\<rparr>" 1 "flaky_endpoint snapshot_ab"
          snapshot_ab "[''a'', ''b'']" "''a''" "checks_a\<lparr>canceled := {''a'', ''b''}\<rparr>"
          "(flaky_endpoint snapshot_ab)\<lparr>requests := 2\<rparr>" 3]
  by (simp add: checks_a_def flaky_endpoint_def snapshot_ab_def test_retryer_def granting_def)




section \<open>Properties of the Docker backend\<close>

lemma sent_append: "sent (xs @ ys) = sent xs @ sent ys"
  by (induction xs rule: sent.induct) simp_all




lemma sent_failed: "sent (failed_pulls img k) = []"
  by (induction k) (simp_all add: failed_pulls_def)

text \<open>
  As long as the cursor signals \<open>Next\<close> and the pull fails, the pull loop goes round and
  the trace grows by one failed pull.
\<close>

lemma pull_loop_skip:
  assumes "\<forall>j<k. pull_policy d (i + j) = Next \<and> Pull_err d (i + j) \<noteq> None"
  shows "pull_loop d img i evs = pull_loop d img (i + k) (evs @ failed_pulls img k)"
  using assms
proof (induction k arbitrary: i evs)
  case 0
  then show ?case by (simp add: failed_pulls_def)
next
  case (Suc k)
  from Suc.prems have "pull_policy d (i + 0) = Next \<and> Pull_err d (i + 0) \<noteq> None"
    by blast
  then obtain e where e: "pull_policy d i = Next" "Pull_err d i = Some e"
    by auto
  have step: "pull_loop d img i evs
      = pull_loop d img (i + 1) (evs @ [Pull Ctx img, Log_Errorf ''Error pulling Docker image %s''])"
    by (subst pull_loop.simps) (simp add: e)
  have "\<forall>j<k. pull_policy d (i + 1 + j) = Next \<and> Pull_err d (i + 1 + j) \<noteq> None"
  proof (intro allI impI)
    fix j assume "j < k"
    then have "Suc j < Suc k" by simp
    with Suc.prems have "pull_policy d (i + Suc j) = Next \<and> Pull_err d (i + Suc j) \<noteq> None"
      by blast
    then show "pull_policy d (i + 1 + j) = Next \<and> Pull_err d (i + 1 + j) \<noteq> None"
      by simp
  qed
  from Suc.IH[OF this]
  have "pull_loop d img (i + 1) (evs @ [Pull Ctx img, Log_Errorf ''Error pulling Docker image %s''])
      = pull_loop d img (i + 1 + k)
          ((evs @ [Pull Ctx img, Log_Errorf ''Error pulling Docker image %s'']) @ failed_pulls img k)" .
  with step show ?case by (simp add: failed_pulls_def)
qed

text \<open>
  What \<open>pullWithBackoff\<close> returns when the first \<open>k\<close> pulls fail: the error of the
  exhausted backoff when the cursor is done at the next round, and no error when the next
  pull succeeds.
\<close>

lemma pullWithBackoff_result:
  assumes "\<forall>i<k. pull_policy d i = Next \<and> Pull_err d i \<noteq> None"
      and "pull_policy d k = Done \<or> Pull_err d k = None"
  shows "pullWithBackoff d img =
           (if pull_policy d k = Done
            then Some (Some (Other ''backoff retry exceeded pulling Docker image''), failed_pulls img k)
            else Some (None, failed_pulls img k @ [Pull Ctx img]))"
proof -
  have "pull_loop d img 0 [] = pull_loop d img (0 + k) ([] @ failed_pulls img k)"
    using assms(1) by (intro pull_loop_skip) simp
  then have "pullWithBackoff d img = pull_loop d img k (failed_pulls img k)"
    by (simp add: pullWithBackoff_def)
  also have "\<dots> = (if pull_policy d k = Done
            then Some (Some (Other ''backoff retry exceeded pulling Docker image''), failed_pulls img k)
            else Some (None, failed_pulls img k @ [Pull Ctx img]))"
    using assms(2) by (subst pull_loop.simps) (auto split: signal.splits)
  finally show ?thesis .
qed

text \<open>Whatever the daemon answers, the one value that \<open>run\<close> sends is the terminal result.\<close>

lemma sent_run_terminal: "sent (run b d params) = [terminal_result d]"
  by (cases "Create_res d")
     (auto simp: run_def run_created_def deferred_remove_def readContainerLogs_def
        terminal_result_def Let_def sent_append split: option.splits sum.splits)

text \<open>
  Claim C4, as amended. When a registry is configured, let the first \<open>k\<close> pulls of the
  image fail under a cursor that signals \<open>Next\<close>, and let the cursor be done at the next
  round or the next pull succeed. Then \<open>Run\<close> returns, and what it returns is this. If a
  registry is configured and the cursor is done before a pull has succeeded, the pull has
  failed: \<open>Run\<close> returns the \<open>nil\<close> channel together with the error of the exhausted
  backoff, no container is created and nothing is ever sent. In every other case \<open>Run\<close>
  returns no error and a channel on which the job sends exactly one value, the terminal
  result, whichever of the steps create, start, wait and log collection has produced it.
\<close>

theorem Run_one_result:
  assumes "Server (config b) \<noteq> [] \<longrightarrow>
             (\<forall>i<k. pull_policy d i = Next \<and> Pull_err d i \<noteq> None)
             \<and> (pull_policy d k = Done \<or> Pull_err d k = None)"
  shows "Run b d params =
           (if Server (config b) = []
            then Some \<lparr>Run_res = Some [terminal_result d], Run_err = None,
                       trace = run b d params\<rparr>
            else if pull_policy d k = Done
            then Some \<lparr>Run_res = None,
                       Run_err = Some (Other ''backoff retry exceeded pulling Docker image''),
                       trace = failed_pulls (Image params) k\<rparr>
            else Some \<lparr>Run_res = Some [terminal_result d], Run_err = None,
                       trace = failed_pulls (Image params) k @ Pull Ctx (Image params)
                                 # run b d params\<rparr>)
       \<and> sent (run b d params) = [terminal_result d]
       \<and> sent (failed_pulls (Image params) k) = []"
proof (cases "Server (config b) = []")
  case True
  then show ?thesis
    by (simp add: Run_def Let_def sent_run_terminal sent_failed)
next
  case False
  with assms have p: "\<forall>i<k. pull_policy d i = Next \<and> Pull_err d i \<noteq> None"
      "pull_policy d k = Done \<or> Pull_err d k = None"
    by simp_all
  show ?thesis
    using False pullWithBackoff_result[OF p, of "Image params"]
    by (simp add: Run_def Let_def sent_run_terminal sent_failed)
qed

text \<open>
  With a registry: the first pull fails, the second succeeds and every later call too, so
  the channel carries the output; or the first pull succeeds and the wait for the
  container ends with the cancellation of the context, so the channel carries that error.
\<close>

theorem Run_one_result_witness:
  "Run registry_backend docker_pull_retry params0 =
     Some \<lparr>Run_res = Some [\<lparr>Output = [111, 117, 116, 10, 101, 114, 114], Error = None\<rparr>],
           Run_err = None,
           trace = [Pull Ctx (Image params0), Log_Errorf ''Error pulling Docker image %s'',
                    Pull Ctx (Image params0)] @ run registry_backend docker_pull_retry params0\<rparr>
   \<and> Run registry_backend docker_cancelled params0 =
     Some \<lparr>Run_res = Some [\<lparr>Output = [], Error = Some Canceled\<rparr>],
           Run_err = None,
           trace = Pull Ctx (Image params0) # run registry_backend docker_cancelled params0\<rparr>"
  using Run_one_result [of registry_backend 1 docker_pull_retry params0]
        Run_one_result [of registry_backend 0 docker_cancelled params0]
  by (simp add: registry_backend_def backend0_def docker_ok_def docker_cancelled_def
        docker_pull_retry_def logs0_def terminal_result_def failed_pulls_def)

text \<open>
  Claim C4 as stated fails for the image pull: when every pull fails until the cursor is
  done, \<open>Run\<close> returns the \<open>nil\<close> channel and the error, so the failure is not delivered
  on a channel at all.
\<close>

theorem Run_pull_failure_counterexample:
  "Run registry_backend docker_pull_fails params0 =
     Some \<lparr>Run_res = None,
           Run_err = Some (Other ''backoff retry exceeded pulling Docker image''),
           trace = [Pull Ctx (Image params0), Log_Errorf ''Error pulling Docker image %s'',
                    Pull Ctx (Image params0), Log_Errorf ''Error pulling Docker image %s'',
                    Pull Ctx (Image params0), Log_Errorf ''Error pulling Docker image %s'']\<rparr>"
  by (simp add: Run_def pullWithBackoff_def pull_loop.simps registry_backend_def backend0_def
        docker_pull_fails_def docker_ok_def)










text \<open>
  Claim C6. The container has been created and started, the wait returns without an
  error, the logs are obtained and demultiplexed without an error. Then the one value
  sent on the channel carries the bytes of standard output, one newline (byte 10) and the
  bytes of standard error, and the trace of the run has exactly one removal of the
  container.
\<close>

theorem run_success_output:
  assumes "Create_res d = (contID, None)" "Start_err d = None" "snd (Wait_res d) = None"
      and "Logs_res d = Inr r" "copy_err r = None"
  shows "sent (run b d params) = [\<lparr>Output = stdout r @ [10] @ stderr r, Error = None\<rparr>]
       \<and> filter is_Remove (run b d params) = [ContainerRemove Background contID True]"
  using assms
  by (simp add: run_def run_created_def deferred_remove_def readContainerLogs_def Let_def
        split: option.splits)

text \<open>The container writes \<open>out\<close> and \<open>err\<close>: the output is \<open>out\<close>, a newline, \<open>err\<close>.\<close>

theorem run_success_output_witness:
  "sent (run backend0 docker_ok params0) =
     [\<lparr>Output = [111, 117, 116, 10, 101, 114, 114], Error = None\<rparr>]
   \<and> filter is_Remove (run backend0 docker_ok params0) = [ContainerRemove Background ''c1'' True]"
  using run_success_output [of docker_ok "''c1''" logs0 backend0 params0]
  by (simp add: docker_ok_def logs0_def)

text \<open>
  Claim C7. The container has been created and started, and the wait returns an error
  that matches \<open>context.Canceled\<close> or \<open>context.DeadlineExceeded\<close>. Then the run is
  exactly: create, start, wait, a stop request made against a background context with the
  timeout \<open>abortTimeout\<close> of 5 seconds, the send of that very error, and the deferred
  removal. So there is one stop request, no request for the logs, the error is the
  result, and the container is removed exactly once.
\<close>

theorem run_cancelled:
  assumes "Create_res d = (contID, None)" "Start_err d = None" "Wait_res d = (st, Some e)"
      and "errors_Is e Canceled \<or> errors_Is e DeadlineExceeded"
  shows "run b d params =
           [Debugf ''fetching check variables from configuration %+v'',
            Create Ctx (getRunConfig b params) (CheckID params),
            ContainerStart Ctx contID, ContainerWait Ctx contID,
            ContainerStop Background contID abortTimeout,
            Send \<lparr>Output = [], Error = Some e\<rparr>]
           @ deferred_remove d contID
       \<and> filter is_Stop (run b d params) = [ContainerStop Background contID abortTimeout]
       \<and> filter is_Logs (run b d params) = []
       \<and> sent (run b d params) = [\<lparr>Output = [], Error = Some e\<rparr>]
       \<and> filter is_Remove (run b d params) = [ContainerRemove Background contID True]
       \<and> abortTimeout = 5"
  using assms
  by (auto simp: run_def run_created_def deferred_remove_def Let_def abortTimeout_def
        split: option.splits)

text \<open>The wait ends with \<open>context.Canceled\<close>.\<close>

theorem run_cancelled_witness:
  "run backend0 docker_cancelled params0 =
           [Debugf ''fetching check variables from configuration %+v'',
            Create Ctx (getRunConfig backend0 params0) (CheckID params0),
            ContainerStart Ctx ''c1'', ContainerWait Ctx ''c1'',
            ContainerStop Background ''c1'' abortTimeout,
            Send \<lparr>Output = [], Error = Some Canceled\<rparr>]
           @ deferred_remove docker_cancelled ''c1''
       \<and> filter is_Stop (run backend0 docker_cancelled params0)
           = [ContainerStop Background ''c1'' abortTimeout]
       \<and> filter is_Logs (run backend0 docker_cancelled params0) = []
       \<and> sent (run backend0 docker_cancelled params0) = [\<lparr>Output = [], Error = Some Canceled\<rparr>]
       \<and> filter is_Remove (run backend0 docker_cancelled params0)
           = [ContainerRemove Background ''c1'' True]
       \<and> abortTimeout = 5"
proof -
  have "Create_res docker_cancelled = (''c1'', None)" "Start_err docker_cancelled = None"
       "Wait_res docker_cancelled = (0, Some Canceled)"
       "errors_Is Canceled Canceled \<or> errors_Is Canceled DeadlineExceeded"
    by (simp_all add: docker_cancelled_def docker_ok_def)
  then show ?thesis by (rule run_cancelled)
qed

section \<open>Properties of the shutdown\<close>

lemma drain_code:
  assumes "stopperDone p = Recv e1" "qrdone p = Recv e2"
      and "Shutdown_err p = None \<longrightarrow> httpDone p = Recv e4"
  shows "fst (drain p acts) =
           Some (if Shutdown_err p \<noteq> None \<or> (e4 \<noteq> None \<and> \<not> Is e4 ErrServerClosed) then 1 else 0)"
  using assms by (auto simp: drain_def Let_def split: option.splits)

lemma drain_logs:
  assumes "stopperDone p = Recv e1" "qrdone p = Recv e2"
      and "Shutdown_err p = None \<longrightarrow> httpDone p = Recv e4"
      and "Log_error ''error stopping the reader tracker %+v'' \<notin> set acts"
      and "Log_error ''error stopping agent %+v'' \<notin> set acts"
  shows "(Log_error ''error stopping the reader tracker %+v'' \<in> set (snd (drain p acts)))
           = (e1 \<noteq> None \<and> \<not> Is e1 Canceled)"
    and "(Log_error ''error stopping agent %+v'' \<in> set (snd (drain p acts)))
           = (e2 \<noteq> None \<and> \<not> Is e2 Canceled)"
  using assms by (auto simp: drain_def Let_def split: option.splits)

text \<open>
  Claim C9. The process has come up, and the receives of the drain sequence deliver: \<open>e1\<close>
  from the idle tracker, \<open>e2\<close> from the queue reader and, when \<open>srv.Shutdown\<close> succeeds,
  \<open>e4\<close> from the goroutine that serves HTTP. Then \<open>MainWithExitCode\<close> returns, and its
  exit code is 1 exactly when \<open>srv.Shutdown\<close> fails or \<open>e4\<close> is an error other than
  \<open>http.ErrServerClosed\<close>; otherwise it is 0, whatever \<open>e1\<close> and \<open>e2\<close> are. An error
  \<open>e1\<close> or \<open>e2\<close> other than a cancellation shows in the log, and only there.
\<close>

theorem MainWithExitCode_drain:
  assumes "started p"
      and "stopperDone p = Recv e1" "qrdone p = Recv e2"
      and "Shutdown_err p = None \<longrightarrow> httpDone p = Recv e4"
  shows "fst (MainWithExitCode p) =
           Some (if Shutdown_err p \<noteq> None \<or> (e4 \<noteq> None \<and> \<not> Is e4 ErrServerClosed) then 1 else 0)
       \<and> (Log_error ''error stopping the reader tracker %+v'' \<in> set (snd (MainWithExitCode p)))
           = (e1 \<noteq> None \<and> \<not> Is e1 Canceled)
       \<and> (Log_error ''error stopping agent %+v'' \<in> set (snd (MainWithExitCode p)))
           = (e2 \<noteq> None \<and> \<not> Is e2 Canceled)"
proof -
  from assms(1) obtain t where t: "select_case p = Recv t"
    by (cases "select_case p") (auto simp: started_def)
  show ?thesis
  proof (cases t)
    case Sig
    then have "MainWithExitCode p = drain p [Log_info ''agent running on address %s'', Cancelqr]"
      using assms(1) t by (simp add: MainWithExitCode_def started_def)
    then show ?thesis
      using drain_code[OF assms(2-4)] drain_logs[OF assms(2-4)] by simp
  next
    case (Stopper e)
    then have "MainWithExitCode p = drain p [Log_info ''agent running on address %s'',
        Log_info ''shutting down agent because more than %+v seconds elapsed without messages read'',
        Cancelqr]"
      using assms(1) t by (simp add: MainWithExitCode_def started_def)
    then show ?thesis
      using drain_code[OF assms(2-4)] drain_logs[OF assms(2-4)] by simp
  qed
qed

text \<open>
  Errors of the tracker and of the queue reader: exit code 0 and two entries in the log.
  A failure of \<open>srv.Shutdown\<close>, or an error of the serving goroutine that is not
  \<open>http.ErrServerClosed\<close>: exit code 1. A clean drain: exit code 0.
\<close>

theorem MainWithExitCode_drain_witness:
  "MainWithExitCode process_drain_errors =
     (Some 0, [Log_info ''agent running on address %s'', Cancelqr,
               Log_error ''error stopping the reader tracker %+v'',
               Log_error ''error stopping agent %+v''])
   \<and> fst (MainWithExitCode process_unclean_shutdown) = Some 1
   \<and> fst (MainWithExitCode (process0\<lparr>httpDone := Recv (Some (Other ''listen: address in use''))\<rparr>))
       = Some 1
   \<and> fst (MainWithExitCode process0) = Some 0"
proof -
  have "fst (MainWithExitCode process_drain_errors) = Some 0"
    using MainWithExitCode_drain [of process_drain_errors "Some (Other ''tracker failed'')"
            "Some (Other ''queue read failed'')" "Some ErrServerClosed"]
    by (simp add: process_drain_errors_def process0_def started_def)
  moreover have "snd (MainWithExitCode process_drain_errors) =
      [Log_info ''agent running on address %s'', Cancelqr,
               Log_error ''error stopping the reader tracker %+v'',
               Log_error ''error stopping agent %+v'']"
    by (simp add: MainWithExitCode_def drain_def process_drain_errors_def process0_def)
  moreover have "fst (MainWithExitCode process_unclean_shutdown) = Some 1"
    using MainWithExitCode_drain [of process_unclean_shutdown "Some Canceled" "Some Canceled"
            "Some ErrServerClosed"]
    by (simp add: process_unclean_shutdown_def process0_def started_def)
  moreover have "fst (MainWithExitCode (process0\<lparr>httpDone := Recv (Some (Other ''listen: address in use''))\<rparr>))
                   = Some 1"
    using MainWithExitCode_drain [of "process0\<lparr>httpDone := Recv (Some (Other ''listen: address in use''))\<rparr>"
            "Some Canceled" "Some Canceled" "Some (Other ''listen: address in use'')"]
    by (simp add: process0_def started_def)
  moreover have "fst (MainWithExitCode process0) = Some 0"
    using MainWithExitCode_drain [of process0 "Some Canceled" "Some Canceled" "Some ErrServerClosed"]
    by (simp add: process0_def started_def)
  ultimately show ?thesis by (simp add: prod_eq_iff)
qed

end
